theory Spec2Isabelle
  imports Complex_Main "HOL-Library.Sublist"
begin

section \<open>Python strings\<close>

text \<open>
  A Python \<open>str\<close> is a sequence of code points. It is modelled as a \<^typ>\<open>string\<close>, each
  \<^typ>\<open>char\<close> standing for one code point in the range 0..255, so \<^const>\<open>length\<close> counts
  what Python's \<open>len\<close> counts. A \<open>bytes\<close> value is a list of 8-bit values and uses the
  same carrier. An \<open>Optional[str]\<close> is a \<^typ>\<open>string option\<close>.
\<close>

type_synonym bytes = "char list"

text \<open>
  \<open>str.isspace\<close> on one code point. Below 256 the white space of CPython is
  U+0009..U+000D, U+001C..U+001F, U+0020, U+0085 and U+00A0.
\<close>

definition whitespace :: "char list" where
  "whitespace =
     [CHR 0x09, CHR 0x0A, CHR 0x0B, CHR 0x0C, CHR 0x0D,
      CHR 0x1C, CHR 0x1D, CHR 0x1E, CHR 0x1F, CHR 0x20, CHR 0x85, CHR 0xA0]"

definition isspace :: "char \<Rightarrow> bool" where
  "isspace c = (c \<in> set whitespace)"

text \<open>\<open>s.strip()\<close>: white space is dropped from the left end, then from the right end.\<close>

definition py_strip :: "string \<Rightarrow> string" where
  "py_strip s = rev (dropWhile isspace (rev (dropWhile isspace s)))"

text \<open>\<open>s.startswith(p)\<close>.\<close>

definition py_startswith :: "string \<Rightarrow> string \<Rightarrow> bool" where
  "py_startswith s p = (take (length p) s = p)"

text \<open>\<open>s.endswith(p)\<close>.\<close>

definition py_endswith :: "string \<Rightarrow> string \<Rightarrow> bool" where
  "py_endswith s p = (length p \<le> length s \<and> drop (length s - length p) s = p)"

text \<open>
  \<open>s.split(c)\<close> for a separator of one character: a left-to-right scan that closes the
  current field at every separator. The result is never empty: \<open>"".split("\n")\<close> is
  \<open>[""]\<close>.
\<close>

fun split_scan :: "char \<Rightarrow> string \<Rightarrow> string \<Rightarrow> string list" where
  "split_scan c cur [] = [rev cur]"
| "split_scan c cur (x # xs) =
     (if x = c then rev cur # split_scan c [] xs else split_scan c (x # cur) xs)"

definition py_split :: "string \<Rightarrow> char \<Rightarrow> string list" where
  "py_split s c = split_scan c [] s"

text \<open>\<open>sep.join(xs)\<close>.\<close>

fun py_join :: "string \<Rightarrow> string list \<Rightarrow> string" where
  "py_join sep [] = []"
| "py_join sep [x] = x"
| "py_join sep (x # y # ys) = x @ sep @ py_join sep (y # ys)"

text \<open>
  \<open>s.replace(old, new)\<close> where \<open>old\<close> and \<open>new\<close> are one character each: every occurrence
  is replaced, left to right.
\<close>

fun py_replace :: "string \<Rightarrow> char \<Rightarrow> char \<Rightarrow> string" where
  "py_replace [] old new = []"
| "py_replace (x # xs) old new = (if x = old then new else x) # py_replace xs old new"

text \<open>\<open>"%d" % n\<close> for a natural number.\<close>

fun str_nat :: "nat \<Rightarrow> string" where
  "str_nat n =
     (if n < 10 then [char_of (48 + n)]
      else str_nat (n div 10) @ [char_of (48 + n mod 10)])"

declare str_nat.simps [simp del]

text \<open>Truthiness of an \<open>Optional[str]\<close>: \<open>None\<close> and \<open>""\<close> are false.\<close>

fun truthy :: "string option \<Rightarrow> bool" where
  "truthy None = False"
| "truthy (Some s) = (s \<noteq> [])"

text \<open>\<open>str(x)\<close> inside an f-string, for an \<open>Optional[str]\<close>.\<close>

fun format_value :: "string option \<Rightarrow> string" where
  "format_value None = ''None''"
| "format_value (Some s) = s"

section \<open>Exceptions and the file system\<close>

text \<open>
  An instance of (a subclass of) \<open>Exception\<close>: the name of its class and the text that
  \<open>str(e)\<close> gives. A computation that may raise returns \<open>exn + 'a\<close>, \<open>Inl\<close> the exception.
\<close>

datatype exn = Exn (exn_class: string) (exn_str: string)

text \<open>
  The file system, as far as the handlers see it: the regular files by the path string
  handed to the operating system. Two different strings are two different keys; no
  normalisation of \<open>..\<close> or of repeated separators is modelled.
\<close>

type_synonym filesystem = "string \<rightharpoonup> bytes"

definition UPLOAD_FOLDER :: string where
  "UPLOAD_FOLDER = ''./docs''"

definition STATIC_FOLDER :: string where
  "STATIC_FOLDER = ''./static''"

text \<open>
  \<open>os.path.join(a, b)\<close> on a POSIX system: an absolute \<open>b\<close> discards \<open>a\<close>; otherwise
  the two are joined by one separator unless \<open>a\<close> is empty or already ends in one.
\<close>

definition os_path_join :: "string \<Rightarrow> string \<Rightarrow> string" where
  "os_path_join a b =
     (if py_startswith b ''/'' then b
      else if a = [] \<or> py_endswith a ''/'' then a @ b
      else a @ ''/'' @ b)"

definition os_path_exists :: "filesystem \<Rightarrow> string \<Rightarrow> bool" where
  "os_path_exists fs p = (fs p \<noteq> None)"

section \<open>Computations that may raise\<close>

text \<open>
  A call that may raise is followed by the rest of the block only when it returns; a
  loop over a list stops at the first iteration that raises.
\<close>

definition and_then :: "exn + 'a \<Rightarrow> ('a \<Rightarrow> exn + 'b) \<Rightarrow> exn + 'b" where
  "and_then m f = (case m of Inl e \<Rightarrow> Inl e | Inr x \<Rightarrow> f x)"

fun for_each :: "('s \<Rightarrow> 'a \<Rightarrow> exn + 's) \<Rightarrow> 's \<Rightarrow> 'a list \<Rightarrow> exn + 's" where
  "for_each f s [] = Inr s"
| "for_each f s (x # xs) = (case f s x of Inl e \<Rightarrow> Inl e | Inr s' \<Rightarrow> for_each f s' xs)"

section \<open>The document library\<close>

text \<open>
  The document is what the calls of the authoring library have put into it: the block
  elements of the body in order, and the first paragraph of the header and of the
  footer of its only section. Lengths are in English Metric Units.
\<close>

datatype alignment = LEFT | CENTER | RIGHT | JUSTIFY

record run =
  run_text :: string
  font_size :: "nat option"
  bold :: "bool option"

record para =
  style :: "string option"
  par_alignment :: "alignment option"
  runs :: "run list"

datatype element =
    Picture bytes nat
  | Paragraph para
  | Heading string nat
  | PageBreak

record document =
  body :: "element list"
  header :: para
  footer :: para

definition Inches :: "nat \<Rightarrow> nat" where
  "Inches n = n * 914400"

definition Pt :: "nat \<Rightarrow> nat" where
  "Pt n = n * 12700"

text \<open>
  Every text that goes into the document passes the XML layer of the library, which
  raises \<open>ValueError\<close> on a character that XML 1.0 does not allow. Below 256 these are
  the control characters other than tab, line feed and carriage return: U+0000..U+0008,
  U+000B, U+000C and U+000E..U+001F.
\<close>

definition xml_illegal :: "char list" where
  "xml_illegal =
     [CHR 0x00, CHR 0x01, CHR 0x02, CHR 0x03, CHR 0x04, CHR 0x05, CHR 0x06, CHR 0x07,
      CHR 0x08, CHR 0x0B, CHR 0x0C, CHR 0x0E, CHR 0x0F,
      CHR 0x10, CHR 0x11, CHR 0x12, CHR 0x13, CHR 0x14, CHR 0x15, CHR 0x16, CHR 0x17,
      CHR 0x18, CHR 0x19, CHR 0x1A, CHR 0x1B, CHR 0x1C, CHR 0x1D, CHR 0x1E, CHR 0x1F]"

definition xml_compatible :: "string \<Rightarrow> bool" where
  "xml_compatible t = (\<forall>c \<in> set t. c \<notin> set xml_illegal)"

definition xml_error :: exn where
  "xml_error =
     Exn ''ValueError''
       ''All strings must be XML compatible: Unicode or ASCII, no NULL bytes or control characters''"

definition new_run :: "string \<Rightarrow> run" where
  "new_run t = \<lparr>run_text = t, font_size = None, bold = None\<rparr>"

definition new_paragraph :: "string \<Rightarrow> string option \<Rightarrow> para" where
  "new_paragraph t sty =
     \<lparr>style = sty, par_alignment = None, runs = (if t = [] then [] else [new_run t])\<rparr>"

definition Document :: document where
  "Document = \<lparr>body = [], header = new_paragraph [] None, footer = new_paragraph [] None\<rparr>"

text \<open>
  \<open>doc.add_picture(path, width)\<close> reads the file and fails on a missing file or on
  bytes that are no image of a known format; which bytes are an image is the library's
  business and a parameter here.
\<close>

definition add_picture ::
  "(bytes \<Rightarrow> bool) \<Rightarrow> filesystem \<Rightarrow> document \<Rightarrow> string \<Rightarrow> nat \<Rightarrow> exn + document" where
  "add_picture is_image fs doc path width =
     (case fs path of
        None \<Rightarrow> Inl (Exn ''FileNotFoundError'' path)
      | Some b \<Rightarrow>
          if is_image b then Inr (doc\<lparr>body := body doc @ [Picture b width]\<rparr>)
          else Inl (Exn ''UnrecognizedImageError'' []))"

text \<open>
  \<open>doc.add_paragraph(text, style)\<close> appends a paragraph, puts the text into it when it
  is not empty, and returns the paragraph; it raises when the text is not XML
  compatible. The returned object is the one inside the document, so it is modelled by
  its position in the body; later assignments through it change the document.
\<close>

definition add_paragraph ::
  "document \<Rightarrow> string \<Rightarrow> string option \<Rightarrow> exn + nat \<times> document" where
  "add_paragraph doc t sty =
     (if xml_compatible t
      then Inr (length (body doc), doc\<lparr>body := body doc @ [Paragraph (new_paragraph t sty)]\<rparr>)
      else Inl xml_error)"

definition update_paragraph :: "document \<Rightarrow> nat \<Rightarrow> (para \<Rightarrow> para) \<Rightarrow> document" where
  "update_paragraph doc i f =
     (if i < length (body doc) then
        (case body doc ! i of
           Paragraph p \<Rightarrow> doc\<lparr>body := (body doc)[i := Paragraph (f p)]\<rparr>
         | _ \<Rightarrow> doc)
      else doc)"

definition set_alignment :: "document \<Rightarrow> nat \<Rightarrow> alignment \<Rightarrow> document" where
  "set_alignment doc i a = update_paragraph doc i (\<lambda>p. p\<lparr>par_alignment := Some a\<rparr>)"

text \<open>
  \<open>paragraph.add_run(text)\<close> returns the new run, here its position in the paragraph,
  and raises when the text is not XML compatible.
\<close>

definition add_run :: "document \<Rightarrow> nat \<Rightarrow> string \<Rightarrow> exn + nat \<times> document" where
  "add_run doc i t =
     (if xml_compatible t then
        (if i < length (body doc) then
           (case body doc ! i of
              Paragraph p \<Rightarrow>
                Inr (length (runs p),
                     update_paragraph doc i (\<lambda>p. p\<lparr>runs := runs p @ [new_run t]\<rparr>))
            | _ \<Rightarrow> Inr (0, doc))
         else Inr (0, doc))
      else Inl xml_error)"

definition update_run :: "document \<Rightarrow> nat \<Rightarrow> nat \<Rightarrow> (run \<Rightarrow> run) \<Rightarrow> document" where
  "update_run doc i j f =
     update_paragraph doc i
       (\<lambda>p. if j < length (runs p) then p\<lparr>runs := (runs p)[j := f (runs p ! j)]\<rparr> else p)"

definition set_font_size :: "document \<Rightarrow> nat \<Rightarrow> nat \<Rightarrow> nat \<Rightarrow> document" where
  "set_font_size doc i j sz = update_run doc i j (\<lambda>r. r\<lparr>font_size := Some sz\<rparr>)"

definition set_bold :: "document \<Rightarrow> nat \<Rightarrow> nat \<Rightarrow> bool \<Rightarrow> document" where
  "set_bold doc i j b = update_run doc i j (\<lambda>r. r\<lparr>bold := Some b\<rparr>)"

definition add_page_break :: "document \<Rightarrow> document" where
  "add_page_break doc = doc\<lparr>body := body doc @ [PageBreak]\<rparr>"

text \<open>
  \<open>doc.add_heading(text, level)\<close> raises on a level above 9 and on a text that is not
  XML compatible.
\<close>

definition add_heading :: "document \<Rightarrow> string \<Rightarrow> nat \<Rightarrow> exn + document" where
  "add_heading doc t level =
     (if 9 < level
      then Inl (Exn ''ValueError'' (''level must be in range 0-9, got '' @ str_nat level))
      else if xml_compatible t then Inr (doc\<lparr>body := body doc @ [Heading t level]\<rparr>)
      else Inl xml_error)"

text \<open>
  Assigning \<open>paragraph.text\<close> replaces the content by one run of that text, and raises
  when the text is not XML compatible.
\<close>

definition set_text :: "para \<Rightarrow> string \<Rightarrow> exn + para" where
  "set_text p t = (if xml_compatible t then Inr (p\<lparr>runs := [new_run t]\<rparr>) else Inl xml_error)"

section \<open>The request models\<close>

record GuideRequest =
  g_topic :: string
  g_objectives :: "string list"
  g_tone :: "string option"
  g_format :: "string option"

record DocxRequest =
  topic :: string
  objectives :: "string list"
  guide :: string
  upload_summary :: "string option"

section \<open>The document endpoint\<close>

record streaming_response =
  content :: document
  media_type :: string
  headers :: "(string \<times> string) list"

text \<open>The body of the loop over the objectives: one bulleted paragraph.\<close>

definition add_objective :: "document \<Rightarrow> string \<Rightarrow> exn + document" where
  "add_objective doc obj =
     and_then (add_paragraph doc (''- '' @ obj) (Some ''List Bullet'')) (\<lambda>(p, doc). Inr doc)"

text \<open>The body of the loop over the lines of the guide.\<close>

definition add_guide_line :: "document \<Rightarrow> string \<Rightarrow> exn + document" where
  "add_guide_line doc line =
     (if py_strip line = [] then
        and_then (add_paragraph doc [] None) (\<lambda>(p, doc). Inr doc)
      else if py_startswith (py_strip line) ''-'' then
        and_then (add_paragraph doc (py_strip line) (Some ''List Bullet'')) (\<lambda>(p, doc). Inr doc)
      else
        and_then (add_paragraph doc (py_strip line) None) (\<lambda>(p, doc). Inr doc))"

definition content_disposition :: "string \<Rightarrow> string" where
  "content_disposition t =
     ''attachment; filename='' @ py_replace t CHR '' '' CHR ''_'' @ ''_Recovery_Guide.docx''"

text \<open>The cover page: the logo when the file is there, the title block, a page break.\<close>

definition cover_page :: "(bytes \<Rightarrow> bool) \<Rightarrow> filesystem \<Rightarrow> document \<Rightarrow> exn + document" where
  "cover_page is_image fs doc =
     (let logo_path = os_path_join STATIC_FOLDER ''logo.png''
      in and_then
           (if os_path_exists fs logo_path
            then add_picture is_image fs doc logo_path (Inches 2)
            else Inr doc)
           (\<lambda>doc. and_then (add_paragraph doc [] None)
           (\<lambda>(cover, doc).
              let doc = set_alignment doc cover CENTER
              in and_then
                   (add_run doc cover
                      ''RecoveryPen AI\<newline>Trauma-Informed Companion\<newline>\<newline>'')
           (\<lambda>(run, doc).
              let doc = set_font_size doc cover run (Pt 20);
                  doc = set_bold doc cover run True
              in Inr (add_page_break doc)))))"

text \<open>Header and footer of the first section.\<close>

definition branding :: "document \<Rightarrow> exn + document" where
  "branding doc =
     and_then (set_text (header doc) ''RecoveryPen AI | Trauma-Informed Companion'')
     (\<lambda>h. let doc = doc\<lparr>header := h\<rparr>;
               doc = doc\<lparr>header := (header doc)\<lparr>par_alignment := Some CENTER\<rparr>\<rparr>
           in and_then (set_text (footer doc) ''Page - '')
     (\<lambda>f. let doc = doc\<lparr>footer := f\<rparr>
           in Inr (doc\<lparr>footer := (footer doc)\<lparr>par_alignment := Some CENTER\<rparr>\<rparr>)))"

text \<open>The main content: topic, objectives, the guide line by line.\<close>

definition main_content :: "document \<Rightarrow> DocxRequest \<Rightarrow> exn + document" where
  "main_content doc request =
     and_then (add_heading doc (topic request) 1)
     (\<lambda>doc. and_then (add_heading doc ''Objectives'' 2)
     (\<lambda>doc. and_then (for_each add_objective doc (objectives request))
     (\<lambda>doc. and_then (add_heading doc ''Recovery Guide'' 2)
     (\<lambda>doc. for_each add_guide_line doc (py_split (guide request) CHR ''\<newline>'')))))"

text \<open>The upload summary, under the truthiness test of the source.\<close>

definition summary_section :: "document \<Rightarrow> DocxRequest \<Rightarrow> exn + document" where
  "summary_section doc request =
     (if truthy (upload_summary request)
      then and_then (add_heading doc ''Upload Summary'' 2)
           (\<lambda>doc. and_then (add_paragraph doc (the (upload_summary request)) None)
           (\<lambda>(p, doc). Inr doc))
      else Inr doc)"

text \<open>
  Document assembly: the four blocks in the order of the source on a fresh document.
  An exception of the library ends it.
\<close>

definition assemble_document ::
  "(bytes \<Rightarrow> bool) \<Rightarrow> filesystem \<Rightarrow> DocxRequest \<Rightarrow> exn + document" where
  "assemble_document is_image fs request =
     and_then (cover_page is_image fs Document)
     (\<lambda>doc. and_then (branding doc)
     (\<lambda>doc. and_then (main_content doc request)
     (\<lambda>doc. summary_section doc request)))"

text \<open>
  The handler assembles the document and wraps the saved document in the response. An
  exception of the library leaves the handler as it is. The header values of the
  response are encoded in Latin-1 by the web framework; every string of this model
  encodes, so building the response does not fail here.
\<close>

definition generate_docx ::
  "(bytes \<Rightarrow> bool) \<Rightarrow> filesystem \<Rightarrow> DocxRequest \<Rightarrow> exn + streaming_response" where
  "generate_docx is_image fs request =
     and_then (assemble_document is_image fs request)
     (\<lambda>doc.
        Inr \<lparr>content = doc,
             media_type =
               ''application/vnd.openxmlformats-officedocument.wordprocessingml.document'',
             headers = [(''Content-Disposition'', content_disposition (topic request))]\<rparr>)"

section \<open>Vocabulary of the document claims\<close>

definition blank_paragraph :: element where
  "blank_paragraph = Paragraph \<lparr>style = None, par_alignment = None, runs = []\<rparr>"

definition plain_paragraph :: "string \<Rightarrow> element" where
  "plain_paragraph t =
     Paragraph \<lparr>style = None, par_alignment = None,
                runs = [\<lparr>run_text = t, font_size = None, bold = None\<rparr>]\<rparr>"

definition bulleted_paragraph :: "string \<Rightarrow> element" where
  "bulleted_paragraph t =
     Paragraph \<lparr>style = Some ''List Bullet'', par_alignment = None,
                runs = [\<lparr>run_text = t, font_size = None, bold = None\<rparr>]\<rparr>"

definition title_block :: element where
  "title_block =
     Paragraph \<lparr>style = None, par_alignment = Some CENTER,
                runs = [\<lparr>run_text = ''RecoveryPen AI\<newline>Trauma-Informed Companion\<newline>\<newline>'',
                         font_size = Some 254000, bold = Some True\<rparr>]\<rparr>"


text \<open>The element that one line of the guide text turns into.\<close>

definition guide_paragraph :: "string \<Rightarrow> element" where
  "guide_paragraph line =
     (if py_strip line = [] then blank_paragraph
      else if py_startswith (py_strip line) ''-'' then bulleted_paragraph (py_strip line)
      else plain_paragraph (py_strip line))"

text \<open>
  The requests whose texts the document library takes: the topic, every objective,
  every stripped line of the guide and the upload summary are XML compatible.
\<close>

definition texts_accepted :: "DocxRequest \<Rightarrow> bool" where
  "texts_accepted r =
     (xml_compatible (topic r)
      \<and> (\<forall>obj \<in> set (objectives r). xml_compatible obj)
      \<and> (\<forall>l \<in> set (py_split (guide r) CHR ''\<newline>''). xml_compatible (py_strip l))
      \<and> (case upload_summary r of None \<Rightarrow> True | Some s \<Rightarrow> xml_compatible s))"

text \<open>The document that a request gives behind the elements of the logo.\<close>

definition assembled :: "element list \<Rightarrow> DocxRequest \<Rightarrow> document" where
  "assembled logo r =
     \<lparr>body =
        logo @ [title_block, PageBreak, Heading (topic r) 1, Heading ''Objectives'' 2]
        @ map (\<lambda>obj. bulleted_paragraph (''- '' @ obj)) (objectives r)
        @ [Heading ''Recovery Guide'' 2]
        @ map guide_paragraph (py_split (guide r) CHR ''\<newline>'')
        @ (if truthy (upload_summary r)
           then [Heading ''Upload Summary'' 2, plain_paragraph (the (upload_summary r))]
           else []),
      header =
        \<lparr>style = None, par_alignment = Some CENTER,
         runs = [\<lparr>run_text = ''RecoveryPen AI | Trauma-Informed Companion'',
                  font_size = None, bold = None\<rparr>]\<rparr>,
      footer =
        \<lparr>style = None, par_alignment = Some CENTER,
         runs = [\<lparr>run_text = ''Page - '', font_size = None, bold = None\<rparr>]\<rparr>\<rparr>"

section \<open>The guide endpoint\<close>

text \<open>
  The request body of \<open>/generate-guide\<close> as the validation layer receives it: every field
  of the right type, present or not. For \<open>tone\<close> and \<open>format\<close> the outer \<open>None\<close> is a
  missing key and \<open>Some None\<close> an explicit null.
\<close>

record guide_body =
  b_topic :: "string option"
  b_objectives :: "string list option"
  b_tone :: "string option option"
  b_format :: "string option option"

text \<open>
  Building a \<open>GuideRequest\<close> from the body: a field declared without a default must be
  present, a field declared with one takes it when the key is missing. A failure lists
  the missing fields.
\<close>

definition missing_fields :: "guide_body \<Rightarrow> string list" where
  "missing_fields b =
     (if b_topic b = None then [''topic''] else [])
     @ (if b_objectives b = None then [''objectives''] else [])"

definition parse_GuideRequest :: "guide_body \<Rightarrow> string list + GuideRequest" where
  "parse_GuideRequest b =
     (case (b_topic b, b_objectives b) of
        (Some t, Some objs) \<Rightarrow>
          Inr \<lparr>g_topic = t, g_objectives = objs,
               g_tone = (case b_tone b of None \<Rightarrow> Some ''Empowering'' | Some v \<Rightarrow> v),
               g_format = (case b_format b of None \<Rightarrow> Some ''group'' | Some v \<Rightarrow> v)\<rparr>
      | _ \<Rightarrow> Inl (missing_fields b))"

text \<open>The f-string of the handler.\<close>

definition prompt :: "GuideRequest \<Rightarrow> string" where
  "prompt request =
     ''You are RecoveryPen AI, a trauma-informed assistant. Create a comprehensive, group-ready recovery guide on:\<newline>\<newline>Topic: ''
     @ g_topic request
     @ ''\<newline>\<newline>Objectives:\<newline>''
     @ py_join [CHR 0x0A] (map (\<lambda>obj. ''- '' @ obj) (g_objectives request))
     @ ''\<newline>\<newline>Tone: '' @ format_value (g_tone request)
     @ ''\<newline>Format: '' @ format_value (g_format request)
     @ ''\<newline>\<newline>The guide should include:\<newline>- Clear headings and sections\<newline>- Practical strategies\<newline>- Realistic examples\<newline>- Bullet points and group discussion prompts\<newline>- Closing summary\<newline>\<newline>Begin now.\<newline>''"

text \<open>
  The remote completion call is a parameter: given the keyword arguments it raises or
  returns a response object, of which the handler reads the content of the message of
  the first choice.
\<close>

record chat_message =
  role :: string
  m_content :: "string option"

record choice =
  message :: chat_message

record chat_completion =
  choices :: "choice list"

record create_kwargs =
  model :: string
  messages :: "chat_message list"
  temperature :: real
  max_tokens :: nat

type_synonym completions_api = "create_kwargs \<Rightarrow> exn + chat_completion"

definition kwargs :: "string \<Rightarrow> create_kwargs" where
  "kwargs p =
     \<lparr>model = ''gpt-4-turbo'', messages = [\<lparr>role = ''user'', m_content = Some p\<rparr>],
      temperature = 7 / 10, max_tokens = 2000\<rparr>"

text \<open>\<open>xs[0]\<close> raises on an empty list.\<close>

definition first_item :: "'a list \<Rightarrow> exn + 'a" where
  "first_item xs =
     (case xs of [] \<Rightarrow> Inl (Exn ''IndexError'' ''list index out of range'') | x # _ \<Rightarrow> Inr x)"

text \<open>
  A returned dictionary is the list of its items in order; a value is a string or
  \<open>None\<close>. The \<open>try\<close> block is a computation that may raise, the \<open>except Exception\<close>
  clause a function of the exception.
\<close>

type_synonym json_dict = "(string \<times> string option) list"

definition try_block :: "completions_api \<Rightarrow> string \<Rightarrow> exn + json_dict" where
  "try_block create p =
     (case create (kwargs p) of
        Inl e \<Rightarrow> Inl e
      | Inr response \<Rightarrow>
          (case first_item (choices response) of
             Inl e \<Rightarrow> Inl e
           | Inr c \<Rightarrow> Inr [(''guide'', m_content (message c))]))"

definition generate_guide :: "completions_api \<Rightarrow> GuideRequest \<Rightarrow> exn + json_dict" where
  "generate_guide create request =
     (case try_block create (prompt request) of
        Inr d \<Rightarrow> Inr d
      | Inl e \<Rightarrow> Inr [(''guide'', Some []), (''error'', Some (exn_str e))])"

text \<open>
  What the web framework answers for a handler without a status of its own: 200 when
  it returns, 500 when an exception leaves it.
\<close>

definition status_code :: "exn + 'a \<Rightarrow> nat" where
  "status_code res = (case res of Inl e \<Rightarrow> 500 | Inr v \<Rightarrow> 200)"

section \<open>The upload endpoint\<close>

record UploadFile =
  filename :: string
  file_bytes :: bytes

text \<open>
  \<open>open(path, "wb")\<close> fails or leaves an empty file at the path; whether the operating
  system lets the path be opened (an existing directory, no directory to put it in, a
  full disk) is a parameter. \<open>write\<close> appends to the open file.
\<close>

definition open_wb :: "(string \<Rightarrow> bool) \<Rightarrow> filesystem \<Rightarrow> string \<Rightarrow> exn + filesystem" where
  "open_wb can_open fs path =
     (if can_open path then Inr (fs(path \<mapsto> [])) else Inl (Exn ''OSError'' path))"

definition write_bytes :: "filesystem \<Rightarrow> string \<Rightarrow> bytes \<Rightarrow> filesystem" where
  "write_bytes fs path b = (case fs path of None \<Rightarrow> fs | Some old \<Rightarrow> fs(path \<mapsto> old @ b))"

definition upload_doc ::
  "(string \<Rightarrow> bool) \<Rightarrow> filesystem \<Rightarrow> UploadFile \<Rightarrow> exn + filesystem \<times> json_dict" where
  "upload_doc can_open fs file =
     (let file_path = os_path_join UPLOAD_FOLDER (filename file)
      in case open_wb can_open fs file_path of
           Inl e \<Rightarrow> Inl e
         | Inr fs \<Rightarrow>
            (let fs = write_bytes fs file_path (file_bytes file);
                 summary = ''File '' @ [CHR 0x27] @ filename file @ [CHR 0x27]
                   @ '' uploaded and indexed. It will be used to enhance AI-guided generation.''
             in Inr (fs, [(''message'', Some ''Upload complete.''), (''summary'', Some summary)])))"

section \<open>Facts about the string operations\<close>


lemma py_join_Cons: "ys \<noteq> [] \<Longrightarrow> py_join sep (x # ys) = x @ sep @ py_join sep ys"
  by (cases ys) auto


lemma split_scan_no_sep:
  "c \<notin> set cur \<Longrightarrow> \<forall>l \<in> set (split_scan c cur s). c \<notin> set l"
proof (induction s arbitrary: cur)
  case Nil
  then show ?case by simp
next
  case (Cons x xs)
  show ?case
  proof (cases "x = c")
    case True
    then show ?thesis
      using Cons.prems Cons.IH [of "[]"] by simp
  next
    case False
    then show ?thesis
      using Cons.prems Cons.IH [of "x # cur"] by simp
  qed
qed

lemma py_replace_map: "py_replace s old new = map (\<lambda>x. if x = old then new else x) s"
  by (induction s) auto

section \<open>Facts about the document blocks\<close>

lemma and_then_Inr: "and_then (Inr x) f = f x"
  by (simp add: and_then_def)

lemma and_then_Inl: "and_then (Inl e) f = Inl e"
  by (simp add: and_then_def)

lemma xml_compatible_Nil: "xml_compatible []"
  by (simp add: xml_compatible_def)

lemma xml_compatible_append:
  "xml_compatible (a @ b) = (xml_compatible a \<and> xml_compatible b)"
  by (auto simp add: xml_compatible_def)

lemma xml_compatible_bullet: "xml_compatible (CHR ''-'' # CHR '' '' # t) = xml_compatible t"
  by (simp add: xml_compatible_def xml_illegal_def)

lemma for_each_add_objective:
  "for_each add_objective doc xs =
     (if \<forall>obj \<in> set xs. xml_compatible obj
      then Inr (doc\<lparr>body := body doc @ map (\<lambda>obj. bulleted_paragraph (''- '' @ obj)) xs\<rparr>)
      else Inl xml_error)"
proof (induction xs arbitrary: doc)
  case Nil
  show ?case by simp
next
  case (Cons x xs)
  show ?case
  proof (cases "xml_compatible x")
    case True
    then have "add_objective doc x
        = Inr (doc\<lparr>body := body doc @ [bulleted_paragraph (''- '' @ x)]\<rparr>)"
      by (simp add: add_objective_def add_paragraph_def and_then_def xml_compatible_bullet
            new_paragraph_def new_run_def bulleted_paragraph_def)
    with True show ?thesis
      by (simp add: Cons.IH)
  next
    case False
    then have "add_objective doc x = Inl xml_error"
      by (simp add: add_objective_def add_paragraph_def and_then_def xml_compatible_bullet)
    with False show ?thesis by simp
  qed
qed

lemma add_guide_line_body:
  "add_guide_line doc line =
     (if xml_compatible (py_strip line)
      then Inr (doc\<lparr>body := body doc @ [guide_paragraph line]\<rparr>)
      else Inl xml_error)"
  by (simp add: add_guide_line_def guide_paragraph_def add_paragraph_def and_then_def
        new_paragraph_def new_run_def blank_paragraph_def plain_paragraph_def
        bulleted_paragraph_def xml_compatible_def)

lemma for_each_add_guide_line:
  "for_each add_guide_line doc ls =
     (if \<forall>l \<in> set ls. xml_compatible (py_strip l)
      then Inr (doc\<lparr>body := body doc @ map guide_paragraph ls\<rparr>)
      else Inl xml_error)"
proof (induction ls arbitrary: doc)
  case Nil
  show ?case by simp
next
  case (Cons l ls)
  show ?case
  proof (cases "xml_compatible (py_strip l)")
    case True
    then have "add_guide_line doc l = Inr (doc\<lparr>body := body doc @ [guide_paragraph l]\<rparr>)"
      by (simp only: add_guide_line_body if_True)
    with True show ?thesis
      by (simp add: Cons.IH)
  next
    case False
    then have "add_guide_line doc l = Inl xml_error"
      by (simp only: add_guide_line_body if_False)
    with False show ?thesis by simp
  qed
qed

lemma cover_page_eq:
  "cover_page is_image fs doc =
     (case fs ''./static/logo.png'' of
        None \<Rightarrow> Inr (doc\<lparr>body := body doc @ [title_block, PageBreak]\<rparr>)
      | Some b \<Rightarrow>
          if is_image b
          then Inr (doc\<lparr>body := body doc @ [Picture b 1828800, title_block, PageBreak]\<rparr>)
          else Inl (Exn ''UnrecognizedImageError'' []))"
  by (simp add: cover_page_def os_path_join_def STATIC_FOLDER_def py_startswith_def
        py_endswith_def and_then_def xml_compatible_def xml_illegal_def
        os_path_exists_def add_picture_def add_paragraph_def set_alignment_def
        update_paragraph_def add_run_def set_font_size_def set_bold_def update_run_def
        add_page_break_def new_paragraph_def new_run_def title_block_def Inches_def Pt_def
        nth_append list_update_append split: option.split)

lemma branding_eq:
  "branding doc =
     Inr (doc\<lparr>header := (header doc)\<lparr>par_alignment := Some CENTER,
             runs := [\<lparr>run_text = ''RecoveryPen AI | Trauma-Informed Companion'',
                       font_size = None, bold = None\<rparr>]\<rparr>,
         footer := (footer doc)\<lparr>par_alignment := Some CENTER,
             runs := [\<lparr>run_text = ''Page - '', font_size = None, bold = None\<rparr>]\<rparr>\<rparr>)"
  by (simp add: branding_def set_text_def new_run_def and_then_def xml_compatible_def
        xml_illegal_def)

lemma main_content_eq:
  "main_content doc r =
     (if xml_compatible (topic r)
         \<and> (\<forall>obj \<in> set (objectives r). xml_compatible obj)
         \<and> (\<forall>l \<in> set (py_split (guide r) CHR ''\<newline>''). xml_compatible (py_strip l))
      then Inr (doc\<lparr>body := body doc @ [Heading (topic r) 1, Heading ''Objectives'' 2]
            @ map (\<lambda>obj. bulleted_paragraph (''- '' @ obj)) (objectives r)
            @ [Heading ''Recovery Guide'' 2]
            @ map guide_paragraph (py_split (guide r) CHR ''\<newline>'')\<rparr>)
      else Inl xml_error)"
proof -
  have lit: "xml_compatible ''Objectives''" "xml_compatible ''Recovery Guide''"
    by (simp_all add: xml_compatible_def xml_illegal_def)
  show ?thesis
    by (simp add: main_content_def add_heading_def and_then_def lit for_each_add_objective
          for_each_add_guide_line)
qed

lemma summary_section_eq:
  "summary_section doc r =
     (case upload_summary r of
        None \<Rightarrow> Inr doc
      | Some s \<Rightarrow>
          if s = [] then Inr doc
          else if xml_compatible s
          then Inr (doc\<lparr>body := body doc @ [Heading ''Upload Summary'' 2, plain_paragraph s]\<rparr>)
          else Inl xml_error)"
proof -
  have lit: "xml_compatible ''Upload Summary''"
    by (simp add: xml_compatible_def xml_illegal_def)
  show ?thesis
    by (simp add: summary_section_def add_heading_def add_paragraph_def and_then_def lit
          new_paragraph_def new_run_def plain_paragraph_def split: option.split)
qed

section \<open>The shape of the assembled document\<close>

lemma logo_path: "os_path_join STATIC_FOLDER ''logo.png'' = ''./static/logo.png''"
  by (simp add: os_path_join_def STATIC_FOLDER_def py_startswith_def py_endswith_def)

lemma after_cover:
  "and_then (branding (Document\<lparr>body := body Document @ logo @ [title_block, PageBreak]\<rparr>))
     (\<lambda>doc. and_then (main_content doc r) (\<lambda>doc. summary_section doc r))
   = (if texts_accepted r then Inr (assembled logo r) else Inl xml_error)"
  by (cases "upload_summary r")
     (auto simp add: branding_eq main_content_eq summary_section_eq and_then_def
        texts_accepted_def assembled_def Document_def new_paragraph_def xml_compatible_Nil)

lemma assemble_document_eq:
  "assemble_document is_image fs r =
     (case fs ''./static/logo.png'' of
        None \<Rightarrow> if texts_accepted r then Inr (assembled [] r) else Inl xml_error
      | Some b \<Rightarrow>
          if is_image b
          then if texts_accepted r then Inr (assembled [Picture b 1828800] r)
               else Inl xml_error
          else Inl (Exn ''UnrecognizedImageError'' []))"
proof (cases "fs ''./static/logo.png''")
  case None
  then have cov: "cover_page is_image fs Document
      = Inr (Document\<lparr>body := body Document @ [] @ [title_block, PageBreak]\<rparr>)"
    by (simp add: cover_page_eq)
  have "assemble_document is_image fs r
      = (if texts_accepted r then Inr (assembled [] r) else Inl xml_error)"
    unfolding assemble_document_def by (simp only: cov and_then_Inr after_cover)
  with None show ?thesis by simp
next
  case (Some b)
  show ?thesis
  proof (cases "is_image b")
    case True
    with Some have cov: "cover_page is_image fs Document
        = Inr (Document\<lparr>body := body Document @ [Picture b 1828800] @ [title_block, PageBreak]\<rparr>)"
      by (simp add: cover_page_eq)
    have "assemble_document is_image fs r
        = (if texts_accepted r then Inr (assembled [Picture b 1828800] r) else Inl xml_error)"
      unfolding assemble_document_def by (simp only: cov and_then_Inr after_cover)
    with Some True show ?thesis by simp
  next
    case False
    with Some show ?thesis
      by (simp add: assemble_document_def cover_page_eq and_then_def)
  qed
qed

lemma generate_docx_cases:
  assumes "generate_docx is_image fs r = Inr resp"
  obtains logo where
    "logo = [] \<and> fs ''./static/logo.png'' = None
       \<or> (\<exists>b. logo = [Picture b 1828800] \<and> fs ''./static/logo.png'' = Some b \<and> is_image b)"
    "body (content resp) =
       logo @ [title_block, PageBreak, Heading (topic r) 1, Heading ''Objectives'' 2]
       @ map (\<lambda>obj. bulleted_paragraph (''- '' @ obj)) (objectives r)
       @ [Heading ''Recovery Guide'' 2]
       @ map guide_paragraph (py_split (guide r) CHR ''\<newline>'')
       @ (if truthy (upload_summary r)
          then [Heading ''Upload Summary'' 2, plain_paragraph (the (upload_summary r))]
          else [])"
    "header (content resp) =
       \<lparr>style = None, par_alignment = Some CENTER,
        runs = [\<lparr>run_text = ''RecoveryPen AI | Trauma-Informed Companion'',
                 font_size = None, bold = None\<rparr>]\<rparr>"
    "footer (content resp) =
       \<lparr>style = None, par_alignment = Some CENTER,
        runs = [\<lparr>run_text = ''Page - '', font_size = None, bold = None\<rparr>]\<rparr>"
    "headers resp = [(''Content-Disposition'', content_disposition (topic r))]"
    "media_type resp =
       ''application/vnd.openxmlformats-officedocument.wordprocessingml.document''"
    "texts_accepted r"
proof (cases "fs ''./static/logo.png''")
  case None
  with assms have ok: "texts_accepted r"
    by (simp add: generate_docx_def assemble_document_eq and_then_def split: if_splits)
  with assms None have resp:
    "resp = \<lparr>content = assembled [] r,
             media_type =
               ''application/vnd.openxmlformats-officedocument.wordprocessingml.document'',
             headers = [(''Content-Disposition'', content_disposition (topic r))]\<rparr>"
    by (simp add: generate_docx_def assemble_document_eq and_then_def)
  show ?thesis
  proof (rule that [of "[]"])
    show "[] = [] \<and> fs ''./static/logo.png'' = None
       \<or> (\<exists>b. [] = [Picture b 1828800] \<and> fs ''./static/logo.png'' = Some b \<and> is_image b)"
      using None by simp
    show "texts_accepted r" by (fact ok)
  qed (simp_all add: resp assembled_def)
next
  case (Some b)
  with assms have img: "is_image b"
    by (simp add: generate_docx_def assemble_document_eq and_then_def split: if_splits)
  with assms Some have ok: "texts_accepted r"
    by (simp add: generate_docx_def assemble_document_eq and_then_def split: if_splits)
  with assms Some img have resp:
    "resp = \<lparr>content = assembled [Picture b 1828800] r,
             media_type =
               ''application/vnd.openxmlformats-officedocument.wordprocessingml.document'',
             headers = [(''Content-Disposition'', content_disposition (topic r))]\<rparr>"
    by (simp add: generate_docx_def assemble_document_eq and_then_def)
  show ?thesis
  proof (rule that [of "[Picture b 1828800]"])
    show "[Picture b 1828800] = [] \<and> fs ''./static/logo.png'' = None
       \<or> (\<exists>b'. [Picture b 1828800] = [Picture b' 1828800] \<and> fs ''./static/logo.png'' = Some b'
              \<and> is_image b')"
      using Some img by simp
    show "texts_accepted r" by (fact ok)
  qed (simp_all add: resp assembled_def)
qed

lemma generate_docx_succeeds:
  "fs ''./static/logo.png'' = None \<or> (\<exists>b. fs ''./static/logo.png'' = Some b \<and> is_image b)
   \<Longrightarrow> texts_accepted r
   \<Longrightarrow> \<exists>resp. generate_docx is_image fs r = Inr resp"
  by (auto simp add: generate_docx_def assemble_document_eq and_then_def)

lemma texts_accepted_eval:
  "texts_accepted \<lparr>topic = t, objectives = objs, guide = g, upload_summary = u\<rparr> =
     (xml_compatible t
      \<and> (\<forall>obj \<in> set objs. xml_compatible obj)
      \<and> (\<forall>l \<in> set (py_split g CHR ''\<newline>''). xml_compatible (py_strip l))
      \<and> (case u of None \<Rightarrow> True | Some s \<Rightarrow> xml_compatible s))"
  by (simp add: texts_accepted_def)

section \<open>White space, stripping and the XML characters\<close>








lemma py_startswith_dash: "py_startswith s ''-'' \<longleftrightarrow> (\<exists>rest. s = CHR ''-'' # rest)"
  by (cases s) (simp_all add: py_startswith_def)


lemma py_split_no_sep: "\<forall>l \<in> set (py_split s c). c \<notin> set l"
  unfolding py_split_def by (rule split_scan_no_sep) simp

lemma guide_paragraph_not_heading: "guide_paragraph l \<noteq> Heading t n"
  by (simp add: guide_paragraph_def blank_paragraph_def bulleted_paragraph_def
        plain_paragraph_def)


lemmas texts_eval =
  texts_accepted_def xml_compatible_def xml_illegal_def py_split_def py_strip_def
  isspace_def whitespace_def

section \<open>The lines of the guide\<close>



section \<open>The order of the document\<close>

text \<open>
  Claim C7. When the handler returns, the body starts with the logo picture of width
  two inches or with nothing, then holds the title block (centred, one bold run of 20
  points), the page break, the level-1 heading with the topic, the level-2 heading
  \<open>Objectives\<close> and one bulleted paragraph \<open>- objective\<close> for each objective in order,
  directly followed by the \<open>Recovery Guide\<close> heading. The header paragraph of the
  section is the centred text \<open>RecoveryPen AI | Trauma-Informed Companion\<close> and the
  footer paragraph the centred text \<open>Page - \<close>, whatever the request. Header and footer
  are set between the page break and the topic heading; they belong to the section and
  have no place in the body.
\<close>

theorem document_order:
  assumes "generate_docx is_image fs r = Inr resp"
  shows "\<exists>logo rest.
     body (content resp) =
       logo
       @ [Paragraph \<lparr>style = None, par_alignment = Some CENTER,
            runs = [\<lparr>run_text = ''RecoveryPen AI\<newline>Trauma-Informed Companion\<newline>\<newline>'',
                     font_size = Some (Pt 20), bold = Some True\<rparr>]\<rparr>,
          PageBreak, Heading (topic r) 1, Heading ''Objectives'' 2]
       @ map (\<lambda>obj. bulleted_paragraph (''- '' @ obj)) (objectives r)
       @ Heading ''Recovery Guide'' 2 # rest
     \<and> (logo = [] \<or> (\<exists>b. logo = [Picture b (Inches 2)]))
     \<and> header (content resp) =
         \<lparr>style = None, par_alignment = Some CENTER,
          runs = [\<lparr>run_text = ''RecoveryPen AI | Trauma-Informed Companion'',
                   font_size = None, bold = None\<rparr>]\<rparr>
     \<and> footer (content resp) =
         \<lparr>style = None, par_alignment = Some CENTER,
          runs = [\<lparr>run_text = ''Page - '', font_size = None, bold = None\<rparr>]\<rparr>"
proof -
  let ?rest = "map guide_paragraph (py_split (guide r) CHR ''\<newline>'')
       @ (if truthy (upload_summary r)
          then [Heading ''Upload Summary'' 2, plain_paragraph (the (upload_summary r))]
          else [])"
  from assms obtain logo where
    logo: "logo = [] \<and> fs ''./static/logo.png'' = None
       \<or> (\<exists>b. logo = [Picture b 1828800] \<and> fs ''./static/logo.png'' = Some b \<and> is_image b)"
    and bd: "body (content resp) =
       logo @ [title_block, PageBreak, Heading (topic r) 1, Heading ''Objectives'' 2]
       @ map (\<lambda>obj. bulleted_paragraph (''- '' @ obj)) (objectives r)
       @ [Heading ''Recovery Guide'' 2] @ ?rest"
    and hd: "header (content resp) =
       \<lparr>style = None, par_alignment = Some CENTER,
        runs = [\<lparr>run_text = ''RecoveryPen AI | Trauma-Informed Companion'',
                 font_size = None, bold = None\<rparr>]\<rparr>"
    and ft: "footer (content resp) =
       \<lparr>style = None, par_alignment = Some CENTER,
        runs = [\<lparr>run_text = ''Page - '', font_size = None, bold = None\<rparr>]\<rparr>"
    by (rule generate_docx_cases) simp
  have 1: "body (content resp) =
       logo
       @ [Paragraph \<lparr>style = None, par_alignment = Some CENTER,
            runs = [\<lparr>run_text = ''RecoveryPen AI\<newline>Trauma-Informed Companion\<newline>\<newline>'',
                     font_size = Some (Pt 20), bold = Some True\<rparr>]\<rparr>,
          PageBreak, Heading (topic r) 1, Heading ''Objectives'' 2]
       @ map (\<lambda>obj. bulleted_paragraph (''- '' @ obj)) (objectives r)
       @ Heading ''Recovery Guide'' 2 # ?rest"
    using bd by (simp add: title_block_def Pt_def)
  have 2: "logo = [] \<or> (\<exists>b. logo = [Picture b (Inches 2)])"
    using logo by (auto simp add: Inches_def)
  show ?thesis
    apply (rule exI [of _ logo])
    apply (rule exI [of _ ?rest])
    apply (intro conjI)
       apply (fact 1)
      apply (fact 2)
     apply (fact hd)
    apply (fact ft)
    done
qed

theorem document_order_witness:
  "\<exists>resp rest.
     generate_docx (\<lambda>b. True) [''./static/logo.png'' \<mapsto> ''PNG'']
       \<lparr>topic = ''Stress'', objectives = [''Breathe'', ''Reflect''],
        guide = ''Intro'', upload_summary = None\<rparr> = Inr resp
     \<and> body (content resp) =
         [Picture ''PNG'' 1828800,
          Paragraph \<lparr>style = None, par_alignment = Some CENTER,
            runs = [\<lparr>run_text = ''RecoveryPen AI\<newline>Trauma-Informed Companion\<newline>\<newline>'',
                     font_size = Some 254000, bold = Some True\<rparr>]\<rparr>,
          PageBreak, Heading ''Stress'' 1, Heading ''Objectives'' 2,
          bulleted_paragraph ''- Breathe'', bulleted_paragraph ''- Reflect'',
          Heading ''Recovery Guide'' 2] @ rest"
proof -
  let ?fs = "[''./static/logo.png'' \<mapsto> ''PNG'']"
  let ?r = "\<lparr>topic = ''Stress'', objectives = [''Breathe'', ''Reflect''],
        guide = ''Intro'', upload_summary = None\<rparr>"
  obtain resp where resp: "generate_docx (\<lambda>b. True) ?fs ?r = Inr resp"
    using generate_docx_succeeds [of ?fs "\<lambda>b. True" ?r] by (auto simp add: texts_eval)
  from document_order [OF resp] obtain logo rest where
    bd: "body (content resp) =
       logo
       @ [Paragraph \<lparr>style = None, par_alignment = Some CENTER,
            runs = [\<lparr>run_text = ''RecoveryPen AI\<newline>Trauma-Informed Companion\<newline>\<newline>'',
                     font_size = Some (Pt 20), bold = Some True\<rparr>]\<rparr>,
          PageBreak, Heading (topic ?r) 1, Heading ''Objectives'' 2]
       @ map (\<lambda>obj. bulleted_paragraph (''- '' @ obj)) (objectives ?r)
       @ Heading ''Recovery Guide'' 2 # rest"
    and lg: "logo = [] \<or> (\<exists>b. logo = [Picture b (Inches 2)])"
    by blast
  have "hd (body (content resp)) = Picture ''PNG'' 1828800"
    using resp by (auto simp add: generate_docx_def assemble_document_eq and_then_def
        assembled_def split: if_splits)
  with bd lg have "logo = [Picture ''PNG'' 1828800]"
    by (auto simp add: Inches_def)
  with bd resp show ?thesis
    by (simp add: Pt_def)
qed

section \<open>A missing logo\<close>




section \<open>The upload summary\<close>

lemma heading_not_guide_paragraph: "Heading t n \<notin> guide_paragraph ` A"
  by (auto simp add: guide_paragraph_def blank_paragraph_def bulleted_paragraph_def
        plain_paragraph_def)

text \<open>
  Claim C9. A request whose upload summary is the empty string gives the same result as
  the request without a summary, and the body of the document has no \<open>Upload Summary\<close>
  heading. The test is the truth value of the string: with a summary that is not empty
  the body ends with the heading and a plain paragraph of the summary.
\<close>

theorem empty_summary_omitted:
  "generate_docx is_image fs (r\<lparr>upload_summary := Some []\<rparr>)
     = generate_docx is_image fs (r\<lparr>upload_summary := None\<rparr>)
   \<and> (\<forall>resp. generate_docx is_image fs (r\<lparr>upload_summary := Some []\<rparr>) = Inr resp \<longrightarrow>
         Heading ''Upload Summary'' 2 \<notin> set (body (content resp)))
   \<and> (\<forall>s resp. s \<noteq> [] \<and> generate_docx is_image fs (r\<lparr>upload_summary := Some s\<rparr>) = Inr resp \<longrightarrow>
         (\<exists>pre. body (content resp) = pre @ [Heading ''Upload Summary'' 2, plain_paragraph s]))"
proof (intro conjI allI impI)
  show "generate_docx is_image fs (r\<lparr>upload_summary := Some []\<rparr>)
     = generate_docx is_image fs (r\<lparr>upload_summary := None\<rparr>)"
  proof -
    have "texts_accepted (r\<lparr>upload_summary := Some []\<rparr>)
        = texts_accepted (r\<lparr>upload_summary := None\<rparr>)"
      by (simp add: texts_accepted_def xml_compatible_Nil)
    moreover have "assembled logo (r\<lparr>upload_summary := Some []\<rparr>)
        = assembled logo (r\<lparr>upload_summary := None\<rparr>)" for logo
      by (simp add: assembled_def)
    ultimately have "assemble_document is_image fs (r\<lparr>upload_summary := Some []\<rparr>)
        = assemble_document is_image fs (r\<lparr>upload_summary := None\<rparr>)"
      by (simp only: assemble_document_eq)
    then show ?thesis
      by (simp add: generate_docx_def)
  qed
next
  fix resp
  assume a: "generate_docx is_image fs (r\<lparr>upload_summary := Some []\<rparr>) = Inr resp"
  from a obtain logo where
    logo: "logo = [] \<and> fs ''./static/logo.png'' = None
       \<or> (\<exists>b. logo = [Picture b 1828800] \<and> fs ''./static/logo.png'' = Some b \<and> is_image b)"
    and bd: "body (content resp) =
       logo @ [title_block, PageBreak, Heading (topic r) 1, Heading ''Objectives'' 2]
       @ map (\<lambda>obj. bulleted_paragraph (''- '' @ obj)) (objectives r)
       @ [Heading ''Recovery Guide'' 2]
       @ map guide_paragraph (py_split (guide r) CHR ''\<newline>'')"
    by (rule generate_docx_cases) simp
  from logo show "Heading ''Upload Summary'' 2 \<notin> set (body (content resp))"
    by (auto simp add: bd title_block_def bulleted_paragraph_def heading_not_guide_paragraph)
next
  fix s resp
  assume a: "s \<noteq> [] \<and> generate_docx is_image fs (r\<lparr>upload_summary := Some s\<rparr>) = Inr resp"
  then have "generate_docx is_image fs (r\<lparr>upload_summary := Some s\<rparr>) = Inr resp" ..
  then obtain logo where
    bd: "body (content resp) =
       logo @ [title_block, PageBreak, Heading (topic (r\<lparr>upload_summary := Some s\<rparr>)) 1,
               Heading ''Objectives'' 2]
       @ map (\<lambda>obj. bulleted_paragraph (''- '' @ obj)) (objectives (r\<lparr>upload_summary := Some s\<rparr>))
       @ [Heading ''Recovery Guide'' 2]
       @ map guide_paragraph (py_split (guide (r\<lparr>upload_summary := Some s\<rparr>)) CHR ''\<newline>'')
       @ (if truthy (upload_summary (r\<lparr>upload_summary := Some s\<rparr>))
          then [Heading ''Upload Summary'' 2,
                plain_paragraph (the (upload_summary (r\<lparr>upload_summary := Some s\<rparr>)))]
          else [])"
    by (rule generate_docx_cases)
  let ?pre = "logo @ [title_block, PageBreak, Heading (topic r) 1, Heading ''Objectives'' 2]
       @ map (\<lambda>obj. bulleted_paragraph (''- '' @ obj)) (objectives r)
       @ [Heading ''Recovery Guide'' 2]
       @ map guide_paragraph (py_split (guide r) CHR ''\<newline>'')"
  from bd a have eq: "body (content resp) = ?pre @ [Heading ''Upload Summary'' 2, plain_paragraph s]"
    by simp
  show "\<exists>pre. body (content resp) = pre @ [Heading ''Upload Summary'' 2, plain_paragraph s]"
    by (rule exI [of _ ?pre]) (rule eq)
qed

theorem empty_summary_omitted_witness:
  "\<exists>resp. generate_docx (\<lambda>b. True) Map.empty
       \<lparr>topic = ''Stress'', objectives = [''Breathe''], guide = ''Intro'',
        upload_summary = Some []\<rparr> = Inr resp
     \<and> generate_docx (\<lambda>b. True) Map.empty
       \<lparr>topic = ''Stress'', objectives = [''Breathe''], guide = ''Intro'',
        upload_summary = None\<rparr> = Inr resp
     \<and> Heading ''Upload Summary'' 2 \<notin> set (body (content resp))"
proof -
  let ?r = "\<lparr>topic = ''Stress'', objectives = [''Breathe''], guide = ''Intro'',
        upload_summary = None\<rparr>"
  obtain resp where resp: "generate_docx (\<lambda>b. True) Map.empty ?r = Inr resp"
    using generate_docx_succeeds [of Map.empty "\<lambda>b. True" ?r] by (auto simp add: texts_eval)
  from empty_summary_omitted [of "\<lambda>b. True" Map.empty ?r] resp show ?thesis
    by simp
qed

section \<open>The attachment file name\<close>

text \<open>
  Claim C5. When the handler returns, the \<open>Content-Disposition\<close> header is
  \<open>attachment; filename=\<close> followed by the topic with every space turned into an
  underscore, followed by \<open>_Recovery_Guide.docx\<close>. For the topic \<open>My Plan\<close> the file name
  is \<open>My_Plan_Recovery_Guide.docx\<close>.
\<close>

theorem attachment_filename:
  assumes "generate_docx is_image fs r = Inr resp"
  shows "map_of (headers resp) ''Content-Disposition'' =
           Some (''attachment; filename=''
                 @ map (\<lambda>c. if c = CHR '' '' then CHR ''_'' else c) (topic r)
                 @ ''_Recovery_Guide.docx'')
     \<and> (topic r = ''My Plan'' \<longrightarrow>
          map_of (headers resp) ''Content-Disposition'' =
            Some ''attachment; filename=My_Plan_Recovery_Guide.docx'')"
proof -
  from assms have "headers resp = [(''Content-Disposition'', content_disposition (topic r))]"
    by (rule generate_docx_cases)
  then show ?thesis
    by (simp add: content_disposition_def py_replace_map)
qed

theorem attachment_filename_witness:
  "\<exists>resp. generate_docx (\<lambda>b. True) Map.empty
       \<lparr>topic = ''My Plan'', objectives = [''Breathe''], guide = ''Intro'',
        upload_summary = None\<rparr> = Inr resp
     \<and> map_of (headers resp) ''Content-Disposition'' =
            Some ''attachment; filename=My_Plan_Recovery_Guide.docx''"
proof -
  let ?r = "\<lparr>topic = ''My Plan'', objectives = [''Breathe''], guide = ''Intro'',
        upload_summary = None\<rparr>"
  obtain resp where resp: "generate_docx (\<lambda>b. True) Map.empty ?r = Inr resp"
    using generate_docx_succeeds [of Map.empty "\<lambda>b. True" ?r] by (auto simp add: texts_eval)
  from attachment_filename [OF resp] resp show ?thesis
    by simp
qed

text \<open>
  Claim C10. The header value is the fixed prefix of 21 characters, one character for
  each character of the topic, and the fixed suffix. At the place of a topic character
  that is not a space stands that character itself, with no quoting or escaping around
  it; at the place of a space stands an underscore. Tab, slash, double quote and
  backslash are carried over as they are.
\<close>

theorem only_spaces_replaced:
  assumes "generate_docx is_image fs r = Inr resp"
  shows "\<exists>v. map_of (headers resp) ''Content-Disposition'' = Some v
     \<and> length v = 21 + length (topic r) + 20
     \<and> take 21 v = ''attachment; filename=''
     \<and> drop (21 + length (topic r)) v = ''_Recovery_Guide.docx''
     \<and> (\<forall>i<length (topic r).
           (topic r ! i \<noteq> CHR '' '' \<longrightarrow> v ! (21 + i) = topic r ! i)
           \<and> (topic r ! i = CHR '' '' \<longrightarrow> v ! (21 + i) = CHR ''_''))"
proof -
  let ?f = "py_replace (topic r) CHR '' '' CHR ''_''"
  let ?v = "''attachment; filename='' @ ?f @ ''_Recovery_Guide.docx''"
  from assms have "headers resp = [(''Content-Disposition'', content_disposition (topic r))]"
    by (rule generate_docx_cases)
  then have 1: "map_of (headers resp) ''Content-Disposition'' = Some ?v"
    by (simp add: content_disposition_def)
  have len: "length ?f = length (topic r)"
    by (simp add: py_replace_map)
  have 2: "length ?v = 21 + length (topic r) + 20"
    by (simp add: len)
  have 3: "take 21 ?v = ''attachment; filename=''"
    by simp
  have l21: "length ''attachment; filename='' = 21"
    by simp
  have "drop (length ''attachment; filename='' + length ?f) ?v = ''_Recovery_Guide.docx''"
    by (simp only: drop_append length_append) simp
  then have 4: "drop (21 + length (topic r)) ?v = ''_Recovery_Guide.docx''"
    by (simp only: l21 len)
  have nth: "?v ! (21 + i) = ?f ! i" if "i < length (topic r)" for i
  proof -
    have "(''attachment; filename='' @ (?f @ ''_Recovery_Guide.docx'')) ! (21 + i)
            = (?f @ ''_Recovery_Guide.docx'') ! i"
      by (simp add: nth_append)
    also have "\<dots> = ?f ! i"
      using that len by (simp add: nth_append)
    finally show ?thesis .
  qed
  have 5: "\<forall>i<length (topic r).
           (topic r ! i \<noteq> CHR '' '' \<longrightarrow> ?v ! (21 + i) = topic r ! i)
           \<and> (topic r ! i = CHR '' '' \<longrightarrow> ?v ! (21 + i) = CHR ''_'')"
  proof (intro allI impI)
    fix i
    assume i: "i < length (topic r)"
    have "?f ! i = (if topic r ! i = CHR '' '' then CHR ''_'' else topic r ! i)"
      using i by (simp add: py_replace_map)
    with nth [OF i]
    show "(topic r ! i \<noteq> CHR '' '' \<longrightarrow> ?v ! (21 + i) = topic r ! i)
           \<and> (topic r ! i = CHR '' '' \<longrightarrow> ?v ! (21 + i) = CHR ''_'')"
      by (cases "topic r ! i = CHR '' ''") simp_all
  qed
  show ?thesis
    apply (rule exI [of _ ?v])
    apply (intro conjI)
        apply (fact 1)
       apply (fact 2)
      apply (fact 3)
     apply (fact 4)
    apply (fact 5)
    done
qed

theorem only_spaces_replaced_witness:
  "\<exists>resp v. generate_docx (\<lambda>b. True) Map.empty
       \<lparr>topic = [CHR ''a'', CHR 0x09, CHR ''/'', CHR 0x22, CHR 0x5C, CHR '' '', CHR ''b''],
        objectives = [], guide = [], upload_summary = None\<rparr> = Inr resp
     \<and> map_of (headers resp) ''Content-Disposition'' = Some v
     \<and> v ! 22 = CHR 0x09 \<and> v ! 23 = CHR ''/'' \<and> v ! 24 = CHR 0x22 \<and> v ! 25 = CHR 0x5C
     \<and> v ! 26 = CHR ''_''"
proof -
  let ?r = "\<lparr>topic = [CHR ''a'', CHR 0x09, CHR ''/'', CHR 0x22, CHR 0x5C, CHR '' '', CHR ''b''],
        objectives = [], guide = [], upload_summary = None\<rparr>"
  obtain resp where resp: "generate_docx (\<lambda>b. True) Map.empty ?r = Inr resp"
    using generate_docx_succeeds [of Map.empty "\<lambda>b. True" ?r] by (auto simp add: texts_eval)
  from only_spaces_replaced [OF resp] obtain v where
    v: "map_of (headers resp) ''Content-Disposition'' = Some v"
    and nth: "\<forall>i<length (topic ?r).
           (topic ?r ! i \<noteq> CHR '' '' \<longrightarrow> v ! (21 + i) = topic ?r ! i)
           \<and> (topic ?r ! i = CHR '' '' \<longrightarrow> v ! (21 + i) = CHR ''_'')"
    by blast
  from nth [rule_format, of 1] nth [rule_format, of 2] nth [rule_format, of 3]
    nth [rule_format, of 4] nth [rule_format, of 5]
  have "v ! 22 = CHR 0x09 \<and> v ! 23 = CHR ''/'' \<and> v ! 24 = CHR 0x22 \<and> v ! 25 = CHR 0x5C
     \<and> v ! 26 = CHR ''_''"
    by simp
  with resp v show ?thesis by blast
qed

section \<open>The prompt\<close>

lemma sublist_in_right: "sublist xs zs \<Longrightarrow> sublist xs (ys @ zs)"
  by (simp add: sublist_append)

lemma split_scan_append:
  "split_scan c cur (a @ c # b) = split_scan c cur a @ split_scan c [] b"
  by (induction a arbitrary: cur) simp_all

lemma split_scan_no_sep_id: "c \<notin> set l \<Longrightarrow> split_scan c cur l = [rev cur @ l]"
  by (induction l arbitrary: cur) auto

lemma py_split_py_join:
  "ls \<noteq> [] \<Longrightarrow> \<forall>l \<in> set ls. c \<notin> set l \<Longrightarrow> py_split (py_join [c] ls) c = ls"
proof (induction ls)
  case Nil
  then show ?case by simp
next
  case (Cons x xs)
  show ?case
  proof (cases "xs = []")
    case True
    with Cons.prems show ?thesis
      by (simp add: py_split_def split_scan_no_sep_id)
  next
    case False
    with Cons have "split_scan c [] (py_join [c] xs) = xs"
      by (simp add: py_split_def)
    with False Cons.prems show ?thesis
      by (simp add: py_split_def py_join_Cons split_scan_append split_scan_no_sep_id)
  qed
qed

lemma lines_block:
  assumes "\<forall>l \<in> set ls. c \<notin> set l"
  shows "sublist ls (py_split (a @ c # py_join [c] ls @ c # b) c)"
proof (cases "ls = []")
  case True
  then show ?thesis by simp
next
  case False
  with assms have "py_split (py_join [c] ls) c = ls"
    by (simp add: py_split_py_join)
  then have "py_split (a @ c # py_join [c] ls @ c # b) c
      = py_split a c @ ls @ py_split b c"
    by (simp add: py_split_def split_scan_append)
  then show ?thesis by simp
qed

lemma concat_bullets:
  "ls \<noteq> [] \<Longrightarrow> concat (map (\<lambda>l. c # l) ls) = c # py_join [c] ls"
proof (induction ls)
  case Nil
  then show ?case by simp
next
  case (Cons x xs)
  then show ?case
    by (cases "xs = []") (simp_all add: py_join_Cons)
qed

lemma prompt_shape:
  "prompt r =
     (''You are RecoveryPen AI, a trauma-informed assistant. Create a comprehensive, group-ready recovery guide on:\<newline>\<newline>Topic: ''
      @ g_topic r @ ''\<newline>\<newline>Objectives:'')
     @ CHR ''\<newline>'' # py_join [CHR ''\<newline>''] (map (\<lambda>obj. ''- '' @ obj) (g_objectives r))
     @ CHR ''\<newline>'' #
       (''\<newline>Tone: '' @ format_value (g_tone r) @ ''\<newline>Format: '' @ format_value (g_format r)
        @ ''\<newline>\<newline>The guide should include:\<newline>- Clear headings and sections\<newline>- Practical strategies\<newline>- Realistic examples\<newline>- Bullet points and group discussion prompts\<newline>- Closing summary\<newline>\<newline>Begin now.\<newline>'')"
  by (simp add: prompt_def)

lemma prompt_bullet_block:
  "sublist (concat (map (\<lambda>obj. ''\<newline>- '' @ obj) (g_objectives r)) @ ''\<newline>'') (prompt r)"
proof (cases "g_objectives r = []")
  case True
  have "sublist ''\<newline>'' (prompt r)"
    unfolding prompt_shape by (rule sublist_in_right) (simp add: sublist_Cons_right)
  with True show ?thesis by simp
next
  case False
  let ?ls = "map (\<lambda>obj. ''- '' @ obj) (g_objectives r)"
  from False have "?ls \<noteq> []" by simp
  then have "concat (map (\<lambda>l. CHR ''\<newline>'' # l) ?ls) = CHR ''\<newline>'' # py_join [CHR ''\<newline>''] ?ls"
    by (rule concat_bullets)
  then have eq: "concat (map (\<lambda>obj. ''\<newline>- '' @ obj) (g_objectives r)) @ ''\<newline>''
      = CHR ''\<newline>'' # py_join [CHR ''\<newline>''] ?ls @ ''\<newline>''"
    by (simp add: comp_def)
  have "sublist (CHR ''\<newline>'' # py_join [CHR ''\<newline>''] ?ls @ ''\<newline>'') (prompt r)"
    unfolding prompt_shape sublist_def
    by (rule exI, rule exI [of _ "''\<newline>Tone: '' @ format_value (g_tone r) @ ''\<newline>Format: ''
        @ format_value (g_format r)
        @ ''\<newline>\<newline>The guide should include:\<newline>- Clear headings and sections\<newline>- Practical strategies\<newline>- Realistic examples\<newline>- Bullet points and group discussion prompts\<newline>- Closing summary\<newline>\<newline>Begin now.\<newline>''"])
       simp
  with eq show ?thesis by simp
qed


lemma prompt_topic_line:
  "prompt r =
     ''You are RecoveryPen AI, a trauma-informed assistant. Create a comprehensive, group-ready recovery guide on:\<newline>\<newline>''
     @ (''Topic: '' @ g_topic r @ ''\<newline>'')
     @ (''\<newline>Objectives:\<newline>''
        @ py_join [CHR ''\<newline>''] (map (\<lambda>obj. ''- '' @ obj) (g_objectives r))
        @ ''\<newline>\<newline>Tone: '' @ format_value (g_tone r)
        @ ''\<newline>Format: '' @ format_value (g_format r)
        @ ''\<newline>\<newline>The guide should include:\<newline>- Clear headings and sections\<newline>- Practical strategies\<newline>- Realistic examples\<newline>- Bullet points and group discussion prompts\<newline>- Closing summary\<newline>\<newline>Begin now.\<newline>'')"
  by (simp add: prompt_def)

lemma prompt_tone_format_lines:
  "prompt r =
     (''You are RecoveryPen AI, a trauma-informed assistant. Create a comprehensive, group-ready recovery guide on:\<newline>\<newline>Topic: ''
      @ g_topic r @ ''\<newline>\<newline>Objectives:\<newline>''
      @ py_join [CHR ''\<newline>''] (map (\<lambda>obj. ''- '' @ obj) (g_objectives r))
      @ ''\<newline>\<newline>'')
     @ (''Tone: '' @ format_value (g_tone r) @ ''\<newline>Format: '' @ format_value (g_format r)
        @ ''\<newline>'')
     @ ''\<newline>The guide should include:\<newline>- Clear headings and sections\<newline>- Practical strategies\<newline>- Realistic examples\<newline>- Bullet points and group discussion prompts\<newline>- Closing summary\<newline>\<newline>Begin now.\<newline>''"
  by (simp add: prompt_def)

text \<open>
  Claim C3, as stated, promises for every request a line of the prompt that is \<open>- \<close>
  followed by the objective. The request with the one objective \<open>a\nb\<close> refutes it: the
  lines of its prompt are the ones below, with \<open>- a\<close> and \<open>b\<close> on two lines, and none of
  them is \<open>- a\nb\<close>.
\<close>

theorem objective_line_counterexample:
  "py_split (prompt \<lparr>g_topic = ''Stress'', g_objectives = [''a\<newline>b''],
                     g_tone = Some ''Calm'', g_format = Some ''solo''\<rparr>) CHR ''\<newline>''
     = [''You are RecoveryPen AI, a trauma-informed assistant. Create a comprehensive, group-ready recovery guide on:'',
        [], ''Topic: Stress'', [], ''Objectives:'', ''- a'', ''b'', [], ''Tone: Calm'',
        ''Format: solo'', [], ''The guide should include:'',
        ''- Clear headings and sections'', ''- Practical strategies'',
        ''- Realistic examples'', ''- Bullet points and group discussion prompts'',
        ''- Closing summary'', [], ''Begin now.'', []]
   \<and> ''- a\<newline>b''
       \<notin> set (py_split (prompt \<lparr>g_topic = ''Stress'', g_objectives = [''a\<newline>b''],
                                 g_tone = Some ''Calm'', g_format = Some ''solo''\<rparr>) CHR ''\<newline>'')"
proof -
  let ?r = "\<lparr>g_topic = ''Stress'', g_objectives = [''a\<newline>b''],
             g_tone = Some ''Calm'', g_format = Some ''solo''\<rparr>"
  have lines: "py_split (prompt ?r) CHR ''\<newline>''
     = [''You are RecoveryPen AI, a trauma-informed assistant. Create a comprehensive, group-ready recovery guide on:'',
        [], ''Topic: Stress'', [], ''Objectives:'', ''- a'', ''b'', [], ''Tone: Calm'',
        ''Format: solo'', [], ''The guide should include:'',
        ''- Clear headings and sections'', ''- Practical strategies'',
        ''- Realistic examples'', ''- Bullet points and group discussion prompts'',
        ''- Closing summary'', [], ''Begin now.'', []]"
    by (simp add: prompt_def py_split_def)
  have "\<forall>l \<in> set (py_split (prompt ?r) CHR ''\<newline>''). CHR ''\<newline>'' \<notin> set l"
    by (rule py_split_no_sep)
  then have "''- a\<newline>b'' \<notin> set (py_split (prompt ?r) CHR ''\<newline>'')"
    by auto
  with lines show ?thesis by (rule conjI)
qed

text \<open>
  Claim C3, amended. For every request the prompt contains the topic as it is, and the
  tone and the format as the f-string renders them, which for a string value is the
  value itself; the topic stands in the line \<open>Topic: ...\<close> and tone and format in the
  lines \<open>Tone: ...\<close> and \<open>Format: ...\<close>. It contains the objectives as one block in order,
  each at the start of a line behind \<open>- \<close>, the block closed by a newline. For every
  request in which no objective holds a newline, the lines of the prompt contain the
  lines \<open>- objective\<close>, next to each other and in the order of the objectives. For
  topic \<open>Stress\<close>, objectives \<open>Breathe\<close> and \<open>Reflect\<close>, tone \<open>Calm\<close> and format \<open>solo\<close> the
  prompt has the lines \<open>- Breathe\<close> and \<open>- Reflect\<close> and contains \<open>Calm\<close> and \<open>solo\<close>.
\<close>

theorem prompt_embeds_fields:
  "sublist (g_topic r) (prompt r)
   \<and> sublist (format_value (g_tone r)) (prompt r)
   \<and> sublist (format_value (g_format r)) (prompt r)
   \<and> (\<forall>t. g_tone r = Some t \<longrightarrow> sublist t (prompt r))
   \<and> (\<forall>f. g_format r = Some f \<longrightarrow> sublist f (prompt r))
   \<and> sublist (''Topic: '' @ g_topic r @ ''\<newline>'') (prompt r)
   \<and> sublist (''Tone: '' @ format_value (g_tone r) @ ''\<newline>Format: ''
                @ format_value (g_format r) @ ''\<newline>'') (prompt r)
   \<and> sublist (concat (map (\<lambda>obj. ''\<newline>- '' @ obj) (g_objectives r)) @ ''\<newline>'') (prompt r)
   \<and> ((\<forall>obj \<in> set (g_objectives r). CHR ''\<newline>'' \<notin> set obj) \<longrightarrow>
        sublist (map (\<lambda>obj. ''- '' @ obj) (g_objectives r)) (py_split (prompt r) CHR ''\<newline>''))"
proof -
  have topic: "sublist (g_topic r) (prompt r)"
    unfolding prompt_def by (rule sublist_appendI)
  have tone: "sublist (format_value (g_tone r)) (prompt r)"
    unfolding prompt_def
    by (rule sublist_in_right, rule sublist_in_right, rule sublist_in_right,
        rule sublist_in_right, rule sublist_in_right, rule sublist_append_rightI)
  have fmt: "sublist (format_value (g_format r)) (prompt r)"
    unfolding prompt_def
    by (rule sublist_in_right, rule sublist_in_right, rule sublist_in_right,
        rule sublist_in_right, rule sublist_in_right, rule sublist_in_right,
        rule sublist_in_right, rule sublist_append_rightI)
  have tone': "\<forall>t. g_tone r = Some t \<longrightarrow> sublist t (prompt r)"
    using tone by auto
  have fmt': "\<forall>f. g_format r = Some f \<longrightarrow> sublist f (prompt r)"
    using fmt by auto
  have lines: "(\<forall>obj \<in> set (g_objectives r). CHR ''\<newline>'' \<notin> set obj) \<longrightarrow>
        sublist (map (\<lambda>obj. ''- '' @ obj) (g_objectives r)) (py_split (prompt r) CHR ''\<newline>'')"
  proof
    assume "\<forall>obj \<in> set (g_objectives r). CHR ''\<newline>'' \<notin> set obj"
    then have "\<forall>l \<in> set (map (\<lambda>obj. ''- '' @ obj) (g_objectives r)). CHR ''\<newline>'' \<notin> set l"
      by simp
    then show "sublist (map (\<lambda>obj. ''- '' @ obj) (g_objectives r))
        (py_split (prompt r) CHR ''\<newline>'')"
      unfolding prompt_shape by (rule lines_block)
  qed
  have topic_line: "sublist (''Topic: '' @ g_topic r @ ''\<newline>'') (prompt r)"
    by (subst prompt_topic_line) (rule sublist_appendI)
  have tone_lines: "sublist (''Tone: '' @ format_value (g_tone r) @ ''\<newline>Format: ''
                @ format_value (g_format r) @ ''\<newline>'') (prompt r)"
    by (subst prompt_tone_format_lines) (rule sublist_appendI)
  from topic tone fmt tone' fmt' topic_line tone_lines prompt_bullet_block [of r] lines
  show ?thesis
    by (intro conjI)
qed

theorem prompt_embeds_fields_witness:
  "sublist [''- Breathe'', ''- Reflect'']
        (py_split (prompt \<lparr>g_topic = ''Stress'', g_objectives = [''Breathe'', ''Reflect''],
                          g_tone = Some ''Calm'', g_format = Some ''solo''\<rparr>) CHR ''\<newline>'')
   \<and> sublist ''\<newline>- Breathe\<newline>- Reflect\<newline>''
        (prompt \<lparr>g_topic = ''Stress'', g_objectives = [''Breathe'', ''Reflect''],
                 g_tone = Some ''Calm'', g_format = Some ''solo''\<rparr>)
   \<and> sublist ''Calm''
        (prompt \<lparr>g_topic = ''Stress'', g_objectives = [''Breathe'', ''Reflect''],
                 g_tone = Some ''Calm'', g_format = Some ''solo''\<rparr>)
   \<and> sublist ''solo''
        (prompt \<lparr>g_topic = ''Stress'', g_objectives = [''Breathe'', ''Reflect''],
                 g_tone = Some ''Calm'', g_format = Some ''solo''\<rparr>)"
  using prompt_embeds_fields [of "\<lparr>g_topic = ''Stress'', g_objectives = [''Breathe'', ''Reflect''],
                 g_tone = Some ''Calm'', g_format = Some ''solo''\<rparr>"]
  by simp

section \<open>Failure of the completion call\<close>

text \<open>
  Claim C2. Whatever the completion call does, be it a return or an exception of class
  \<open>Exception\<close>, the handler returns a dictionary and raises nothing, so the answer has
  status 200. If the call raises \<open>e\<close>, the dictionary
  is \<open>guide\<close> = the empty string and \<open>error\<close> = \<open>str(e)\<close>, which is not empty when the
  exception has a message; a response without choices ends in the same way through the
  \<open>IndexError\<close> of \<open>choices[0]\<close>. If the call returns a response with a first choice, the
  dictionary has the content of its message under \<open>guide\<close> and no \<open>error\<close> key.
\<close>

theorem generate_guide_never_raises:
  "(\<exists>d. generate_guide create r = Inr d)
   \<and> status_code (generate_guide create r) = 200
   \<and> (\<forall>e. create (kwargs (prompt r)) = Inl e \<longrightarrow>
         generate_guide create r = Inr [(''guide'', Some []), (''error'', Some (exn_str e))]
         \<and> (exn_str e \<noteq> [] \<longrightarrow>
              (\<exists>d msg. generate_guide create r = Inr d \<and> map_of d ''error'' = Some (Some msg)
                 \<and> msg \<noteq> [])))
   \<and> (\<forall>resp. create (kwargs (prompt r)) = Inr resp \<and> choices resp = [] \<longrightarrow>
         generate_guide create r =
           Inr [(''guide'', Some []), (''error'', Some ''list index out of range'')])
   \<and> (\<forall>resp c cs. create (kwargs (prompt r)) = Inr resp \<and> choices resp = c # cs \<longrightarrow>
         (\<exists>d. generate_guide create r = Inr d
            \<and> map_of d ''guide'' = Some (m_content (message c))
            \<and> map_of d ''error'' = None))"
proof (intro conjI allI impI)
  show "\<exists>d. generate_guide create r = Inr d"
    by (cases "try_block create (prompt r)") (simp_all add: generate_guide_def)
  show "status_code (generate_guide create r) = 200"
    by (cases "try_block create (prompt r)") (simp_all add: generate_guide_def status_code_def)
next
  fix e
  assume e: "create (kwargs (prompt r)) = Inl e"
  then show err: "generate_guide create r
      = Inr [(''guide'', Some []), (''error'', Some (exn_str e))]"
    by (simp add: generate_guide_def try_block_def)
  assume "exn_str e \<noteq> []"
  with err show "\<exists>d msg. generate_guide create r = Inr d
      \<and> map_of d ''error'' = Some (Some msg) \<and> msg \<noteq> []"
    by simp
next
  fix resp
  assume "create (kwargs (prompt r)) = Inr resp \<and> choices resp = []"
  then show "generate_guide create r =
           Inr [(''guide'', Some []), (''error'', Some ''list index out of range'')]"
    by (simp add: generate_guide_def try_block_def first_item_def)
next
  fix resp c cs
  assume "create (kwargs (prompt r)) = Inr resp \<and> choices resp = c # cs"
  then have "generate_guide create r = Inr [(''guide'', m_content (message c))]"
    by (simp add: generate_guide_def try_block_def first_item_def)
  then show "\<exists>d. generate_guide create r = Inr d
            \<and> map_of d ''guide'' = Some (m_content (message c))
            \<and> map_of d ''error'' = None"
    by simp
qed

theorem generate_guide_never_raises_witness:
  "generate_guide (\<lambda>k. Inl (Exn ''APIConnectionError'' ''Connection error.''))
       \<lparr>g_topic = ''Stress'', g_objectives = [''Breathe'', ''Reflect''],
        g_tone = Some ''Calm'', g_format = Some ''solo''\<rparr>
     = Inr [(''guide'', Some []), (''error'', Some ''Connection error.'')]
   \<and> (\<exists>d. generate_guide
         (\<lambda>k. Inr \<lparr>choices = [\<lparr>message = \<lparr>role = ''assistant'', m_content = Some ''Text''\<rparr>\<rparr>]\<rparr>)
         \<lparr>g_topic = ''Stress'', g_objectives = [''Breathe'', ''Reflect''],
          g_tone = Some ''Calm'', g_format = Some ''solo''\<rparr> = Inr d
       \<and> map_of d ''guide'' = Some (Some ''Text'') \<and> map_of d ''error'' = None)
   \<and> generate_guide (\<lambda>k. Inr \<lparr>choices = []\<rparr>)
       \<lparr>g_topic = ''Stress'', g_objectives = [''Breathe'', ''Reflect''],
        g_tone = Some ''Calm'', g_format = Some ''solo''\<rparr>
     = Inr [(''guide'', Some []), (''error'', Some ''list index out of range'')]"
  using
    generate_guide_never_raises [of "\<lambda>k. Inl (Exn ''APIConnectionError'' ''Connection error.'')"
      "\<lparr>g_topic = ''Stress'', g_objectives = [''Breathe'', ''Reflect''],
        g_tone = Some ''Calm'', g_format = Some ''solo''\<rparr>"]
    generate_guide_never_raises
      [of "\<lambda>k. Inr \<lparr>choices = [\<lparr>message = \<lparr>role = ''assistant'', m_content = Some ''Text''\<rparr>\<rparr>]\<rparr>"
      "\<lparr>g_topic = ''Stress'', g_objectives = [''Breathe'', ''Reflect''],
        g_tone = Some ''Calm'', g_format = Some ''solo''\<rparr>"]
    generate_guide_never_raises [of "\<lambda>k. Inr \<lparr>choices = []\<rparr>"
      "\<lparr>g_topic = ''Stress'', g_objectives = [''Breathe'', ''Reflect''],
        g_tone = Some ''Calm'', g_format = Some ''solo''\<rparr>"]
  by simp

section \<open>Defaults of the guide request\<close>

text \<open>
  Claim C8. A body with topic and objectives gives a request with these values; when
  the body has no \<open>tone\<close> key the tone is \<open>Empowering\<close>, when it has no \<open>format\<close> key the
  format is \<open>group\<close>, and a value given for either is kept. A body without topic or
  without objectives is rejected and the missing field is named: the two have no
  default.
\<close>

theorem guide_request_defaults:
  "(\<forall>t objs. b_topic b = Some t \<and> b_objectives b = Some objs \<longrightarrow>
      (\<exists>r. parse_GuideRequest b = Inr r \<and> g_topic r = t \<and> g_objectives r = objs
         \<and> (b_tone b = None \<longrightarrow> g_tone r = Some ''Empowering'')
         \<and> (b_format b = None \<longrightarrow> g_format r = Some ''group'')
         \<and> (\<forall>v. b_tone b = Some v \<longrightarrow> g_tone r = v)
         \<and> (\<forall>v. b_format b = Some v \<longrightarrow> g_format r = v)))
   \<and> (b_topic b = None \<longrightarrow>
        (\<exists>errs. parse_GuideRequest b = Inl errs \<and> ''topic'' \<in> set errs))
   \<and> (b_objectives b = None \<longrightarrow>
        (\<exists>errs. parse_GuideRequest b = Inl errs \<and> ''objectives'' \<in> set errs))"
  by (auto simp add: parse_GuideRequest_def missing_fields_def split: option.splits)

theorem guide_request_defaults_witness:
  "parse_GuideRequest \<lparr>b_topic = Some ''Stress'', b_objectives = Some [''Breathe''],
                       b_tone = None, b_format = None\<rparr>
     = Inr \<lparr>g_topic = ''Stress'', g_objectives = [''Breathe''],
            g_tone = Some ''Empowering'', g_format = Some ''group''\<rparr>
   \<and> (\<exists>errs. parse_GuideRequest \<lparr>b_topic = None, b_objectives = None,
                                  b_tone = Some (Some ''Calm''), b_format = None\<rparr> = Inl errs
         \<and> ''topic'' \<in> set errs \<and> ''objectives'' \<in> set errs)
   \<and> (\<exists>r. parse_GuideRequest \<lparr>b_topic = Some ''Stress'', b_objectives = Some [''Breathe''],
                               b_tone = Some (Some ''Calm''), b_format = Some None\<rparr> = Inr r
         \<and> g_tone r = Some ''Calm'' \<and> g_format r = None)"
proof -
  let ?b = "\<lparr>b_topic = Some ''Stress'', b_objectives = Some [''Breathe''],
             b_tone = None, b_format = None\<rparr>"
  let ?b' = "\<lparr>b_topic = None, b_objectives = None,
              b_tone = Some (Some ''Calm''), b_format = None\<rparr>"
  from guide_request_defaults [of ?b] obtain r where
    "parse_GuideRequest ?b = Inr r" "g_topic r = ''Stress''" "g_objectives r = [''Breathe'']"
    "g_tone r = Some ''Empowering''" "g_format r = Some ''group''"
    by auto
  then have 1: "parse_GuideRequest ?b
     = Inr \<lparr>g_topic = ''Stress'', g_objectives = [''Breathe''],
            g_tone = Some ''Empowering'', g_format = Some ''group''\<rparr>"
    by simp
  from guide_request_defaults [of ?b']
  have 2: "\<exists>errs. parse_GuideRequest ?b' = Inl errs
         \<and> ''topic'' \<in> set errs \<and> ''objectives'' \<in> set errs"
    by auto
  from guide_request_defaults
    [of "\<lparr>b_topic = Some ''Stress'', b_objectives = Some [''Breathe''],
          b_tone = Some (Some ''Calm''), b_format = Some None\<rparr>"]
  have 3: "\<exists>r. parse_GuideRequest \<lparr>b_topic = Some ''Stress'', b_objectives = Some [''Breathe''],
                               b_tone = Some (Some ''Calm''), b_format = Some None\<rparr> = Inr r
         \<and> g_tone r = Some ''Calm'' \<and> g_format r = None"
    by auto
  from 1 2 3 show ?thesis by (intro conjI)
qed

section \<open>The upload endpoint: where the bytes go\<close>

text \<open>
  The path of the stored file is the uploads folder joined with the file name. For a
  name that does not start with a separator this is the string \<open>./docs/\<close> followed by
  the name, which stays inside the folder only when the name has no \<open>..\<close> component;
  a name that starts with a separator is taken as the whole path.
\<close>

lemma upload_path_relative:
  "\<not> py_startswith fn ''/'' \<Longrightarrow> os_path_join UPLOAD_FOLDER fn = ''./docs/'' @ fn"
  by (simp add: os_path_join_def UPLOAD_FOLDER_def py_endswith_def)

lemma upload_path_absolute:
  "py_startswith fn ''/'' \<Longrightarrow> os_path_join UPLOAD_FOLDER fn = fn"
  by (simp add: os_path_join_def)

text \<open>
  When the path can be opened, the handler stores exactly the bytes of the upload at
  the joined path, changes no other file, and the summary contains the file name. A
  second upload under the same name replaces the bytes.
\<close>

lemma upload_doc_stores:
  assumes "can_open (os_path_join UPLOAD_FOLDER (filename f))"
  shows "\<exists>fs' s. upload_doc can_open fs f
           = Inr (fs', [(''message'', Some ''Upload complete.''), (''summary'', Some s)])
     \<and> fs' = fs(os_path_join UPLOAD_FOLDER (filename f) \<mapsto> file_bytes f)
     \<and> sublist (filename f) s"
proof -
  let ?s = "''File '' @ [CHR 0x27] @ filename f @ [CHR 0x27]
      @ '' uploaded and indexed. It will be used to enhance AI-guided generation.''"
  have "sublist (filename f) ?s"
    by (rule sublist_in_right, rule sublist_in_right, rule sublist_append_rightI)
  with assms show ?thesis
    by (simp add: upload_doc_def open_wb_def write_bytes_def)
qed

lemma upload_doc_relative:
  assumes "\<not> py_startswith (filename f) ''/''" and "can_open (''./docs/'' @ filename f)"
  shows "\<exists>fs' resp. upload_doc can_open fs f = Inr (fs', resp)
     \<and> fs' (''./docs/'' @ filename f) = Some (file_bytes f)
     \<and> (\<forall>p. p \<noteq> ''./docs/'' @ filename f \<longrightarrow> fs' p = fs p)"
  using assms upload_doc_stores [of can_open f fs] by (auto simp add: upload_path_relative)

lemma upload_doc_overwrites:
  assumes "can_open (os_path_join UPLOAD_FOLDER (filename f))"
    and "filename g = filename f"
    and "upload_doc can_open fs f = Inr (fs1, resp1)"
  shows "\<exists>fs2 resp2. upload_doc can_open fs1 g = Inr (fs2, resp2)
     \<and> fs2 (os_path_join UPLOAD_FOLDER (filename f)) = Some (file_bytes g)"
  using assms upload_doc_stores [of can_open g fs1] by auto

lemma upload_doc_notes:
  "\<exists>fs'. upload_doc (\<lambda>p. True) Map.empty \<lparr>filename = ''notes.txt'', file_bytes = ''abc''\<rparr>
     = Inr (fs', [(''message'', Some ''Upload complete.''),
                  (''summary'', Some (''File '' @ [CHR 0x27] @ ''notes.txt'' @ [CHR 0x27]
                     @ '' uploaded and indexed. It will be used to enhance AI-guided generation.''))])
     \<and> fs' ''./docs/notes.txt'' = Some ''abc''"
  by (simp add: upload_doc_def open_wb_def write_bytes_def os_path_join_def UPLOAD_FOLDER_def
        py_startswith_def py_endswith_def)

text \<open>
  Claim C4. The claim puts every upload into the uploads folder under its file name.
  For the file name \<open>/tmp/notes.txt\<close> with content \<open>abc\<close> the handler returns normally
  and the only file written is \<open>/tmp/notes.txt\<close>: the path does not start with the
  uploads folder, and nothing is stored under \<open>./docs\<close>.
\<close>

theorem upload_doc_absolute_filename:
  "\<exists>fs' resp.
     upload_doc (\<lambda>p. True) Map.empty \<lparr>filename = ''/tmp/notes.txt'', file_bytes = ''abc''\<rparr>
       = Inr (fs', resp)
     \<and> fs' ''/tmp/notes.txt'' = Some ''abc''
     \<and> dom fs' = {''/tmp/notes.txt''}
     \<and> \<not> prefix UPLOAD_FOLDER ''/tmp/notes.txt''
     \<and> fs' (UPLOAD_FOLDER @ ''/'' @ ''/tmp/notes.txt'') = None
     \<and> fs' (UPLOAD_FOLDER @ ''/'' @ ''notes.txt'') = None"
  by (simp add: upload_doc_def open_wb_def write_bytes_def os_path_join_def UPLOAD_FOLDER_def
        py_startswith_def)

end
